theory Spec2Isabelle
  imports Complex_Main
begin

section \<open>Miner health monitor: data model\<close>

text \<open>
  The enums and classes of \<^verbatim>\<open>miner_health_monitor_simulation.py\<close>. Both enums have
  a member \<^verbatim>\<open>EMERGENCY\<close>; the one of \<^verbatim>\<open>SystemState\<close> is written
  \<open>EMERGENCY_STATE\<close> here, the one of \<^verbatim>\<open>HealthStatus\<close> keeps its name.
\<close>

datatype SystemState =
  SLEEP | WAKING | MONITORING | EXTENDED_MONITORING | EMERGENCY_STATE | TRANSMITTING

datatype HealthStatus = NORMAL | WARNING | CRITICAL | EMERGENCY

text \<open>
  \<^verbatim>\<open>VitalSigns\<close>: Python's unbounded integers are \<open>int\<close>. A Python float is
  modelled by the real number it denotes: the classifier only compares the temperature
  with the constants 35.0, 35.5, 38.5 and 40.0, all of them binary fractions, so the
  comparisons of the floats and of the reals agree on every finite reading. The
  timestamp is \<open>None\<close> until a reading is taken.
\<close>

record VitalSigns =
  spo2 :: int
  heart_rate :: int
  bp_systolic :: int
  bp_diastolic :: int
  temperature :: real
  accel_x :: real
  accel_y :: real
  accel_z :: real
  fall_detected :: bool
  no_movement :: bool
  timestamp :: "nat option"

definition VitalSigns_init :: VitalSigns where
  "VitalSigns_init =
     \<lparr>spo2 = 0, heart_rate = 0, bp_systolic = 0, bp_diastolic = 0, temperature = 0,
      accel_x = 0, accel_y = 0, accel_z = 0, fall_detected = False, no_movement = False,
      timestamp = None\<rparr>"

record MinerHealthMonitor =
  current_state :: SystemState
  health_status :: HealthStatus
  vitals :: VitalSigns
  monitoring_interval :: int
  anomaly_count :: int
  emergency_sent :: bool
  measurement_count :: int

subsection \<open>Class constants\<close>

named_theorems thresholds \<open>the threshold and interval constants of MinerHealthMonitor\<close>

definition SPO2_MIN_NORMAL :: int where [thresholds]: "SPO2_MIN_NORMAL = 92"
definition SPO2_MIN_CRITICAL :: int where [thresholds]: "SPO2_MIN_CRITICAL = 85"
definition HEART_RATE_MIN :: int where [thresholds]: "HEART_RATE_MIN = 45"
definition HEART_RATE_MAX :: int where [thresholds]: "HEART_RATE_MAX = 120"
definition HEART_RATE_CRITICAL_MIN :: int where [thresholds]: "HEART_RATE_CRITICAL_MIN = 40"
definition HEART_RATE_CRITICAL_MAX :: int where [thresholds]: "HEART_RATE_CRITICAL_MAX = 150"
definition TEMP_MIN_NORMAL :: real where [thresholds]: "TEMP_MIN_NORMAL = 35.5"
definition TEMP_MAX_NORMAL :: real where [thresholds]: "TEMP_MAX_NORMAL = 38.5"
definition TEMP_CRITICAL_MIN :: real where [thresholds]: "TEMP_CRITICAL_MIN = 35.0"
definition TEMP_CRITICAL_MAX :: real where [thresholds]: "TEMP_CRITICAL_MAX = 40.0"

definition NORMAL_INTERVAL :: int where [thresholds]: "NORMAL_INTERVAL = 35"
definition EXTENDED_INTERVAL :: int where [thresholds]: "EXTENDED_INTERVAL = 10"
definition EMERGENCY_INTERVAL :: int where [thresholds]: "EMERGENCY_INTERVAL = 5"

text \<open>\<^verbatim>\<open>MinerHealthMonitor.__init__\<close>.\<close>

definition MinerHealthMonitor_init :: MinerHealthMonitor where
  "MinerHealthMonitor_init =
     \<lparr>current_state = SLEEP, health_status = NORMAL, vitals = VitalSigns_init,
      monitoring_interval = NORMAL_INTERVAL, anomaly_count = 0, emergency_sent = False,
      measurement_count = 0\<rparr>"

section \<open>The classifier\<close>

text \<open>
  \<^verbatim>\<open>MinerHealthMonitor.analyze_health\<close>. The method reads \<^verbatim>\<open>self.vitals\<close> and
  the class constants, prints a line per flag, and assigns to nothing but its two local
  counters; so it is a function of the monitor that returns the status alone. The two
  counters are the pair \<open>(warning_flags, critical_flags)\<close>; each \<^verbatim>\<open>if ... elif\<close>
  block of the method is one function on that pair, applied in the order of the source,
  and \<open>classify\<close> is the body of the method on the sample it reads.
\<close>

definition check_spo2 :: "VitalSigns \<Rightarrow> int \<times> int \<Rightarrow> int \<times> int" where
  "check_spo2 v = (\<lambda>(warning_flags, critical_flags).
     if spo2 v < SPO2_MIN_CRITICAL then (warning_flags, critical_flags + 1)
     else if spo2 v < SPO2_MIN_NORMAL then (warning_flags + 1, critical_flags)
     else (warning_flags, critical_flags))"

definition check_heart_rate :: "VitalSigns \<Rightarrow> int \<times> int \<Rightarrow> int \<times> int" where
  "check_heart_rate v = (\<lambda>(warning_flags, critical_flags).
     if heart_rate v < HEART_RATE_CRITICAL_MIN \<or> heart_rate v > HEART_RATE_CRITICAL_MAX
     then (warning_flags, critical_flags + 1)
     else if heart_rate v < HEART_RATE_MIN \<or> heart_rate v > HEART_RATE_MAX
     then (warning_flags + 1, critical_flags)
     else (warning_flags, critical_flags))"

definition check_temperature :: "VitalSigns \<Rightarrow> int \<times> int \<Rightarrow> int \<times> int" where
  "check_temperature v = (\<lambda>(warning_flags, critical_flags).
     if temperature v < TEMP_CRITICAL_MIN \<or> temperature v > TEMP_CRITICAL_MAX
     then (warning_flags, critical_flags + 1)
     else if temperature v < TEMP_MIN_NORMAL \<or> temperature v > TEMP_MAX_NORMAL
     then (warning_flags + 1, critical_flags)
     else (warning_flags, critical_flags))"

definition check_fall :: "VitalSigns \<Rightarrow> int \<times> int \<Rightarrow> int \<times> int" where
  "check_fall v = (\<lambda>(warning_flags, critical_flags).
     if fall_detected v then (warning_flags, critical_flags + 1)
     else (warning_flags, critical_flags))"

definition count_flags :: "VitalSigns \<Rightarrow> int \<times> int" where
  "count_flags v = check_fall v (check_temperature v (check_heart_rate v (check_spo2 v (0, 0))))"

definition classify :: "VitalSigns \<Rightarrow> HealthStatus" where
  "classify v =
     (case count_flags v of (warning_flags, critical_flags) \<Rightarrow>
        if critical_flags > 0 \<or> fall_detected v then EMERGENCY
        else if warning_flags \<ge> 2 then CRITICAL
        else if warning_flags > 0 then WARNING
        else NORMAL)"

definition analyze_health :: "MinerHealthMonitor \<Rightarrow> HealthStatus" where
  "analyze_health self = classify (vitals self)"

subsection \<open>The decision table as the specification words it\<close>

text \<open>
  The bands of the specification's threshold table, one predicate per band, and the two
  flag counters as sums over the signals: a signal adds one to the critical counter when
  its reading is in the critical band, one to the warning counter when it is in the
  warning band, and a detected fall adds one critical flag.
\<close>

definition spo2_critical_band :: "int \<Rightarrow> bool" where
  "spo2_critical_band x = (x < 85)"

definition spo2_warning_band :: "int \<Rightarrow> bool" where
  "spo2_warning_band x = (85 \<le> x \<and> x \<le> 91)"

definition heart_rate_critical_band :: "int \<Rightarrow> bool" where
  "heart_rate_critical_band h = (h < 40 \<or> h > 150)"

definition heart_rate_warning_band :: "int \<Rightarrow> bool" where
  "heart_rate_warning_band h = ((h < 45 \<or> h > 120) \<and> 40 \<le> h \<and> h \<le> 150)"

definition temperature_critical_band :: "real \<Rightarrow> bool" where
  "temperature_critical_band t = (t < 35.0 \<or> t > 40.0)"

definition temperature_warning_band :: "real \<Rightarrow> bool" where
  "temperature_warning_band t = ((t < 35.5 \<or> t > 38.5) \<and> 35.0 \<le> t \<and> t \<le> 40.0)"

definition spec_critical_flags :: "VitalSigns \<Rightarrow> int" where
  "spec_critical_flags v =
     of_bool (spo2_critical_band (spo2 v)) + of_bool (heart_rate_critical_band (heart_rate v)) +
     of_bool (temperature_critical_band (temperature v)) + of_bool (fall_detected v)"

definition spec_warning_flags :: "VitalSigns \<Rightarrow> int" where
  "spec_warning_flags v =
     of_bool (spo2_warning_band (spo2 v)) + of_bool (heart_rate_warning_band (heart_rate v)) +
     of_bool (temperature_warning_band (temperature v))"

definition spec_classify :: "VitalSigns \<Rightarrow> HealthStatus" where
  "spec_classify v =
     (if spec_critical_flags v > 0 \<or> fall_detected v then EMERGENCY
      else if spec_warning_flags v \<ge> 2 then CRITICAL
      else if spec_warning_flags v \<ge> 1 then WARNING
      else NORMAL)"

section \<open>The dashboard variant's classifier\<close>

text \<open>
  \<^verbatim>\<open>MinerHealthMonitorGraphical\<close> of \<^verbatim>\<open>miner_health_monitor_dashboard.py\<close> has
  class constants of its own for the warning bounds and the SpO2 critical bound, and
  writes the critical bounds of heart rate and temperature as literals. Its
  \<^verbatim>\<open>analyze_health\<close> takes the three readings as arguments, in this order.
\<close>

definition Graphical_SPO2_MIN_NORMAL :: int where [thresholds]: "Graphical_SPO2_MIN_NORMAL = 92"
definition Graphical_SPO2_MIN_CRITICAL :: int where [thresholds]: "Graphical_SPO2_MIN_CRITICAL = 85"
definition Graphical_HEART_RATE_MIN :: int where [thresholds]: "Graphical_HEART_RATE_MIN = 45"
definition Graphical_HEART_RATE_MAX :: int where [thresholds]: "Graphical_HEART_RATE_MAX = 120"
definition Graphical_TEMP_MIN_NORMAL :: real where [thresholds]: "Graphical_TEMP_MIN_NORMAL = 35.5"
definition Graphical_TEMP_MAX_NORMAL :: real where [thresholds]: "Graphical_TEMP_MAX_NORMAL = 38.5"

definition Graphical_analyze_health :: "int \<Rightarrow> int \<Rightarrow> real \<Rightarrow> HealthStatus" where
  "Graphical_analyze_health heart_rate' spo2' temperature' =
     (let (warning_flags, critical_flags) = (0::int, 0::int);
          (warning_flags, critical_flags) =
            (if spo2' < Graphical_SPO2_MIN_CRITICAL then (warning_flags, critical_flags + 1)
             else if spo2' < Graphical_SPO2_MIN_NORMAL then (warning_flags + 1, critical_flags)
             else (warning_flags, critical_flags));
          (warning_flags, critical_flags) =
            (if heart_rate' < 40 \<or> heart_rate' > 150 then (warning_flags, critical_flags + 1)
             else if heart_rate' < Graphical_HEART_RATE_MIN \<or> heart_rate' > Graphical_HEART_RATE_MAX
             then (warning_flags + 1, critical_flags)
             else (warning_flags, critical_flags));
          (warning_flags, critical_flags) =
            (if temperature' < 35.0 \<or> temperature' > 40.0 then (warning_flags, critical_flags + 1)
             else if temperature' < Graphical_TEMP_MIN_NORMAL \<or> temperature' > Graphical_TEMP_MAX_NORMAL
             then (warning_flags + 1, critical_flags)
             else (warning_flags, critical_flags))
      in if critical_flags > 0 then EMERGENCY
         else if warning_flags \<ge> 2 then CRITICAL
         else if warning_flags > 0 then WARNING
         else NORMAL)"

section \<open>The vitals source\<close>

text \<open>
  \<^verbatim>\<open>simulate_sensor_readings\<close> draws from \<^verbatim>\<open>random\<close> and reads the clock. The
  values drawn in one call are an input of the model: \<open>SensorDraws\<close> has one field per
  call of \<^verbatim>\<open>random.randint\<close> or \<^verbatim>\<open>random.uniform\<close> (rounded where the source
  rounds) and one for \<^verbatim>\<open>datetime.now()\<close>. The anomaly draws are used only on the
  cycles that inject the anomaly. \<open>draws_in_range\<close> says that every draw lies in the
  range the source asks for.
\<close>

record SensorDraws =
  now :: nat
  rand_spo2 :: int
  rand_heart_rate :: int
  rand_bp_systolic :: int
  rand_bp_diastolic :: int
  rand_temperature :: real
  rand_accel_x :: real
  rand_accel_y :: real
  rand_accel_z :: real
  rand_low_spo2 :: int
  rand_high_heart_rate :: int
  rand_fall_x :: real
  rand_fall_y :: real
  rand_fall_z :: real

definition draws_in_range :: "SensorDraws \<Rightarrow> bool" where
  "draws_in_range d =
     (95 \<le> rand_spo2 d \<and> rand_spo2 d \<le> 99 \<and>
      70 \<le> rand_heart_rate d \<and> rand_heart_rate d \<le> 90 \<and>
      110 \<le> rand_bp_systolic d \<and> rand_bp_systolic d \<le> 130 \<and>
      70 \<le> rand_bp_diastolic d \<and> rand_bp_diastolic d \<le> 85 \<and>
      36.2 \<le> rand_temperature d \<and> rand_temperature d \<le> 37.2 \<and>
      - 0.2 \<le> rand_accel_x d \<and> rand_accel_x d \<le> 0.2 \<and>
      - 0.2 \<le> rand_accel_y d \<and> rand_accel_y d \<le> 0.2 \<and>
      0.9 \<le> rand_accel_z d \<and> rand_accel_z d \<le> 1.1 \<and>
      87 \<le> rand_low_spo2 d \<and> rand_low_spo2 d \<le> 91 \<and>
      122 \<le> rand_high_heart_rate d \<and> rand_high_heart_rate d \<le> 135 \<and>
      - 3.0 \<le> rand_fall_x d \<and> rand_fall_x d \<le> 3.0 \<and>
      - 3.0 \<le> rand_fall_y d \<and> rand_fall_y d \<le> 3.0 \<and>
      3.5 \<le> rand_fall_z d \<and> rand_fall_z d \<le> 4.5)"

text \<open>
  The method in the order of the source: a fresh \<^verbatim>\<open>VitalSigns\<close> with the timestamp
  and the normal values, the measurement counter, then the three injected anomalies,
  each an \<^verbatim>\<open>if\<close> on the counter.
\<close>

definition read_normal_values :: "SensorDraws \<Rightarrow> MinerHealthMonitor \<Rightarrow> MinerHealthMonitor" where
  "read_normal_values d self =
     (let self = self\<lparr>vitals := VitalSigns_init\<rparr>;
          self = self\<lparr>vitals := (vitals self)\<lparr>timestamp := Some (now d)\<rparr>\<rparr>
      in self\<lparr>vitals := (vitals self)
               \<lparr>spo2 := rand_spo2 d, heart_rate := rand_heart_rate d,
                bp_systolic := rand_bp_systolic d, bp_diastolic := rand_bp_diastolic d,
                temperature := rand_temperature d, accel_x := rand_accel_x d,
                accel_y := rand_accel_y d, accel_z := rand_accel_z d\<rparr>\<rparr>)"

definition count_measurement :: "MinerHealthMonitor \<Rightarrow> MinerHealthMonitor" where
  "count_measurement self = self\<lparr>measurement_count := measurement_count self + 1\<rparr>"

definition inject_low_spo2 :: "SensorDraws \<Rightarrow> MinerHealthMonitor \<Rightarrow> MinerHealthMonitor" where
  "inject_low_spo2 d self =
     (if measurement_count self mod 8 = 0
      then self\<lparr>vitals := (vitals self)\<lparr>spo2 := rand_low_spo2 d\<rparr>\<rparr>
      else self)"

definition inject_high_heart_rate :: "SensorDraws \<Rightarrow> MinerHealthMonitor \<Rightarrow> MinerHealthMonitor" where
  "inject_high_heart_rate d self =
     (if measurement_count self mod 12 = 0
      then self\<lparr>vitals := (vitals self)\<lparr>heart_rate := rand_high_heart_rate d\<rparr>\<rparr>
      else self)"

definition inject_fall :: "SensorDraws \<Rightarrow> MinerHealthMonitor \<Rightarrow> MinerHealthMonitor" where
  "inject_fall d self =
     (if measurement_count self mod 15 = 0
      then self\<lparr>vitals := (vitals self)
             \<lparr>fall_detected := True, accel_x := rand_fall_x d,
              accel_y := rand_fall_y d, accel_z := rand_fall_z d\<rparr>\<rparr>
      else self)"

definition simulate_sensor_readings :: "SensorDraws \<Rightarrow> MinerHealthMonitor \<Rightarrow> MinerHealthMonitor" where
  "simulate_sensor_readings d self =
     inject_fall d (inject_high_heart_rate d (inject_low_spo2 d
       (count_measurement (read_normal_values d self))))"

text \<open>
  What a call of \<^verbatim>\<open>simulate_sensor_readings\<close> does to the monitor, given the sample it
  leaves in \<^verbatim>\<open>self.vitals\<close>: the sample is replaced and the measurement counter goes
  up by one (lemma \<open>simulate_sensor_readings_take_reading\<close> below). The controller is
  studied on every sequence of samples, not only on those the simulator can draw.
\<close>

definition take_reading :: "VitalSigns \<Rightarrow> MinerHealthMonitor \<Rightarrow> MinerHealthMonitor" where
  "take_reading v self = self\<lparr>vitals := v, measurement_count := measurement_count self + 1\<rparr>"

section \<open>The controller\<close>

text \<open>
  \<^verbatim>\<open>transmit_data\<close> prints the payload: the transmitter is an output of the model, a
  list of the transmissions made, each with the \<^verbatim>\<open>is_emergency\<close> argument, the
  vitals and the status printed.
\<close>

record Transmission =
  is_emergency :: bool
  sent_vitals :: VitalSigns
  sent_status :: HealthStatus

definition transmit_data :: "bool \<Rightarrow> MinerHealthMonitor \<Rightarrow> Transmission" where
  "transmit_data emergency self =
     \<lparr>is_emergency = emergency, sent_vitals = vitals self, sent_status = health_status self\<rparr>"

text \<open>\<^verbatim>\<open>handle_health_status\<close>: the new monitor and the transmissions made, in order.\<close>

definition handle_health_status ::
  "HealthStatus \<Rightarrow> MinerHealthMonitor \<Rightarrow> MinerHealthMonitor \<times> Transmission list" where
  "handle_health_status status self =
     (case status of
        NORMAL \<Rightarrow>
          (self\<lparr>monitoring_interval := NORMAL_INTERVAL, anomaly_count := 0,
                emergency_sent := False\<rparr>, [])
      | WARNING \<Rightarrow>
          (let self = self\<lparr>anomaly_count := anomaly_count self + 1\<rparr>
           in if anomaly_count self \<ge> 2
              then (self\<lparr>monitoring_interval := EXTENDED_INTERVAL,
                         current_state := EXTENDED_MONITORING\<rparr>, [])
              else (self, []))
      | CRITICAL \<Rightarrow>
          (let self = self\<lparr>monitoring_interval := EXTENDED_INTERVAL,
                           current_state := EXTENDED_MONITORING\<rparr>
           in (self, [transmit_data False self]))
      | EMERGENCY \<Rightarrow>
          (let self = self\<lparr>monitoring_interval := EMERGENCY_INTERVAL,
                           current_state := EMERGENCY_STATE\<rparr>
           in if \<not> emergency_sent self
              then (self\<lparr>emergency_sent := True\<rparr>, [transmit_data True self])
              else (self, [])))"

text \<open>
  The body of the loop of \<^verbatim>\<open>run\<close>, after the sleep: \<open>power_down\<close> is the
  \<^verbatim>\<open>if ... elif ... else\<close> that closes the cycle, \<open>analyze_and_handle\<close> the analysis
  and all that follows it, \<open>run_cycle\<close> the whole body on the draws of the cycle.
\<close>

definition power_down :: "MinerHealthMonitor \<Rightarrow> MinerHealthMonitor" where
  "power_down self =
     (if current_state self = EMERGENCY_STATE then self
      else if current_state self = EXTENDED_MONITORING then self
      else self\<lparr>current_state := SLEEP\<rparr>)"

definition analyze_and_handle ::
  "MinerHealthMonitor \<Rightarrow> MinerHealthMonitor \<times> Transmission list" where
  "analyze_and_handle self =
     (let self = self\<lparr>health_status := analyze_health self\<rparr>;
          (self, sent) = handle_health_status (health_status self) self
      in (power_down self, sent))"

definition run_cycle ::
  "SensorDraws \<Rightarrow> MinerHealthMonitor \<Rightarrow> MinerHealthMonitor \<times> Transmission list" where
  "run_cycle d self = analyze_and_handle (simulate_sensor_readings d self)"

text \<open>
  \<^verbatim>\<open>run\<close> loops while the wall clock is before the end time, so the number of cycles
  is decided outside the program: the model runs one cycle per element of the list of
  draws and returns the transmissions of each cycle.
\<close>

fun run :: "SensorDraws list \<Rightarrow> MinerHealthMonitor \<Rightarrow> MinerHealthMonitor \<times> Transmission list list" where
  "run [] self = (self, [])"
| "run (d # ds) self =
     (case run_cycle d self of (self', sent) \<Rightarrow>
        case run ds self' of (self'', sents) \<Rightarrow> (self'', sent # sents))"

text \<open>The same cycle and the same loop on given samples.\<close>

definition monitoring_cycle ::
  "VitalSigns \<Rightarrow> MinerHealthMonitor \<Rightarrow> MinerHealthMonitor \<times> Transmission list" where
  "monitoring_cycle v self = analyze_and_handle (take_reading v self)"

fun monitoring_cycles ::
  "VitalSigns list \<Rightarrow> MinerHealthMonitor \<Rightarrow> MinerHealthMonitor \<times> Transmission list list" where
  "monitoring_cycles [] self = (self, [])"
| "monitoring_cycles (v # vs) self =
     (case monitoring_cycle v self of (self', sent) \<Rightarrow>
        case monitoring_cycles vs self' of (self'', sents) \<Rightarrow> (self'', sent # sents))"

text \<open>The samples the simulator leaves in \<^verbatim>\<open>self.vitals\<close>, cycle by cycle.\<close>

fun simulated_samples :: "SensorDraws list \<Rightarrow> MinerHealthMonitor \<Rightarrow> VitalSigns list" where
  "simulated_samples [] self = []"
| "simulated_samples (d # ds) self =
     vitals (simulate_sensor_readings d self) # simulated_samples ds (fst (run_cycle d self))"

subsection \<open>Samples used as concrete inputs\<close>

text \<open>
  A sample with the given SpO2, heart rate, temperature and fall flag, the other fields
  at values of a calm reading; the four named samples are the concrete cases of the
  specification's section 8 and a fall.
\<close>

definition reading :: "int \<Rightarrow> int \<Rightarrow> real \<Rightarrow> bool \<Rightarrow> VitalSigns" where
  "reading s h t f =
     \<lparr>spo2 = s, heart_rate = h, bp_systolic = 120, bp_diastolic = 80, temperature = t,
      accel_x = 0, accel_y = 0, accel_z = 1, fall_detected = f, no_movement = False,
      timestamp = Some 0\<rparr>"

definition normal_reading :: VitalSigns where
  "normal_reading = reading 99 78 36.8 False"

definition warning_reading :: VitalSigns where
  "warning_reading = reading 90 78 36.8 False"

definition critical_reading :: VitalSigns where
  "critical_reading = reading 90 130 36.8 False"

definition emergency_reading :: VitalSigns where
  "emergency_reading = reading 80 78 36.8 False"

definition fall_reading :: VitalSigns where
  "fall_reading = reading 99 78 36.8 True"

text \<open>Draws of a calm cycle, each in the range the simulator draws from.\<close>

definition calm_draws :: SensorDraws where
  "calm_draws =
     \<lparr>now = 0, rand_spo2 = 97, rand_heart_rate = 80, rand_bp_systolic = 120,
      rand_bp_diastolic = 80, rand_temperature = 36.8, rand_accel_x = 0, rand_accel_y = 0,
      rand_accel_z = 1, rand_low_spo2 = 90, rand_high_heart_rate = 130, rand_fall_x = 0,
      rand_fall_y = 0, rand_fall_z = 4\<rparr>"

subsection \<open>Counting cycles\<close>

text \<open>
  Two counts over the statuses of the cycles run so far, oldest first: the length of
  the streak of cycles classified Warning or worse that ends at the last cycle, and the
  number of cycles classified Warning since the last cycle classified Normal.
\<close>

definition anomaly_streak :: "HealthStatus list \<Rightarrow> nat" where
  "anomaly_streak statuses = length (takeWhile (\<lambda>s. s \<noteq> NORMAL) (rev statuses))"

definition warnings_since_normal :: "HealthStatus list \<Rightarrow> nat" where
  "warnings_since_normal statuses =
     length (filter (\<lambda>s. s = WARNING) (takeWhile (\<lambda>s. s \<noteq> NORMAL) (rev statuses)))"

subsection \<open>Emergency episodes\<close>

text \<open>
  An episode is a maximal run of consecutive cycles classified Emergency.
  \<open>episode_counts\<close> reads the cycles oldest first, each with its status and the
  transmissions it made, and returns for each episode the number of transmissions with
  \<^verbatim>\<open>is_emergency=True\<close> made during it; the accumulator is the count of the episode
  being read, \<open>None\<close> outside an episode. \<open>emergency_since_normal\<close> says that some
  cycle was classified Emergency after the last cycle classified Normal.
\<close>

fun episode_counts :: "nat option \<Rightarrow> (HealthStatus \<times> Transmission list) list \<Rightarrow> nat list" where
  "episode_counts acc [] = (case acc of None \<Rightarrow> [] | Some n \<Rightarrow> [n])"
| "episode_counts acc ((status, sent) # rest) =
     (if status = EMERGENCY
      then episode_counts
             (Some ((case acc of None \<Rightarrow> 0 | Some n \<Rightarrow> n) + length (filter is_emergency sent)))
             rest
      else (case acc of None \<Rightarrow> [] | Some n \<Rightarrow> [n]) @ episode_counts None rest)"

definition emergency_episode_counts :: "VitalSigns list \<Rightarrow> MinerHealthMonitor \<Rightarrow> nat list" where
  "emergency_episode_counts vs self =
     episode_counts None (zip (map classify vs) (snd (monitoring_cycles vs self)))"

definition emergency_since_normal :: "HealthStatus list \<Rightarrow> bool" where
  "emergency_since_normal statuses =
     (EMERGENCY \<in> set (takeWhile (\<lambda>s. s \<noteq> NORMAL) (rev statuses)))"

section \<open>The classifier with its effects\<close>

text \<open>
  \<^verbatim>\<open>analyze_health\<close> once more, statement by statement, as a method that could write:
  a call works on a frame holding \<^verbatim>\<open>self\<close>, the two local counters and the lines
  printed so far, every statement of the method is a function on the frame, and the call
  returns the status, the monitor it leaves and the lines it printed. A line is the
  kind of message with the value the f-string shows.
\<close>

datatype Message =
  CriticalSpO2 int | WarningSpO2 int
| CriticalHeartRate int | WarningHeartRate int
| CriticalTemperature real | WarningTemperature real
| FallEmergency

record AnalysisFrame =
  frame_self :: MinerHealthMonitor
  frame_warning_flags :: int
  frame_critical_flags :: int
  frame_printed :: "Message list"

definition analyze_spo2 :: "AnalysisFrame \<Rightarrow> AnalysisFrame" where
  "analyze_spo2 a =
     (if spo2 (vitals (frame_self a)) < SPO2_MIN_CRITICAL
      then a\<lparr>frame_critical_flags := frame_critical_flags a + 1,
             frame_printed := frame_printed a @ [CriticalSpO2 (spo2 (vitals (frame_self a)))]\<rparr>
      else if spo2 (vitals (frame_self a)) < SPO2_MIN_NORMAL
      then a\<lparr>frame_warning_flags := frame_warning_flags a + 1,
             frame_printed := frame_printed a @ [WarningSpO2 (spo2 (vitals (frame_self a)))]\<rparr>
      else a)"

definition analyze_heart_rate :: "AnalysisFrame \<Rightarrow> AnalysisFrame" where
  "analyze_heart_rate a =
     (if heart_rate (vitals (frame_self a)) < HEART_RATE_CRITICAL_MIN
         \<or> heart_rate (vitals (frame_self a)) > HEART_RATE_CRITICAL_MAX
      then a\<lparr>frame_critical_flags := frame_critical_flags a + 1,
             frame_printed :=
               frame_printed a @ [CriticalHeartRate (heart_rate (vitals (frame_self a)))]\<rparr>
      else if heart_rate (vitals (frame_self a)) < HEART_RATE_MIN
         \<or> heart_rate (vitals (frame_self a)) > HEART_RATE_MAX
      then a\<lparr>frame_warning_flags := frame_warning_flags a + 1,
             frame_printed :=
               frame_printed a @ [WarningHeartRate (heart_rate (vitals (frame_self a)))]\<rparr>
      else a)"

definition analyze_temperature :: "AnalysisFrame \<Rightarrow> AnalysisFrame" where
  "analyze_temperature a =
     (if temperature (vitals (frame_self a)) < TEMP_CRITICAL_MIN
         \<or> temperature (vitals (frame_self a)) > TEMP_CRITICAL_MAX
      then a\<lparr>frame_critical_flags := frame_critical_flags a + 1,
             frame_printed :=
               frame_printed a @ [CriticalTemperature (temperature (vitals (frame_self a)))]\<rparr>
      else if temperature (vitals (frame_self a)) < TEMP_MIN_NORMAL
         \<or> temperature (vitals (frame_self a)) > TEMP_MAX_NORMAL
      then a\<lparr>frame_warning_flags := frame_warning_flags a + 1,
             frame_printed :=
               frame_printed a @ [WarningTemperature (temperature (vitals (frame_self a)))]\<rparr>
      else a)"

definition analyze_fall :: "AnalysisFrame \<Rightarrow> AnalysisFrame" where
  "analyze_fall a =
     (if fall_detected (vitals (frame_self a))
      then a\<lparr>frame_critical_flags := frame_critical_flags a + 1,
             frame_printed := frame_printed a @ [FallEmergency]\<rparr>
      else a)"

definition overall_status :: "AnalysisFrame \<Rightarrow> HealthStatus" where
  "overall_status a =
     (if frame_critical_flags a > 0 \<or> fall_detected (vitals (frame_self a)) then EMERGENCY
      else if frame_warning_flags a \<ge> 2 then CRITICAL
      else if frame_warning_flags a > 0 then WARNING
      else NORMAL)"

definition analyze_health_call ::
  "MinerHealthMonitor \<Rightarrow> HealthStatus \<times> MinerHealthMonitor \<times> Message list" where
  "analyze_health_call self =
     (let a = \<lparr>frame_self = self, frame_warning_flags = 0, frame_critical_flags = 0,
                frame_printed = []\<rparr>;
          a = analyze_fall (analyze_temperature (analyze_heart_rate (analyze_spo2 a)))
      in (overall_status a, frame_self a, frame_printed a))"

section \<open>Properties of the classifier\<close>

lemma count_flags_spec:
  "count_flags v = (spec_warning_flags v, spec_critical_flags v)"
  by (simp add: count_flags_def check_spo2_def check_heart_rate_def check_temperature_def
      check_fall_def spec_warning_flags_def spec_critical_flags_def thresholds
      spo2_critical_band_def spo2_warning_band_def heart_rate_critical_band_def
      heart_rate_warning_band_def temperature_critical_band_def temperature_warning_band_def)

lemma bands_exclusive:
  "\<not> (spo2_critical_band x \<and> spo2_warning_band x)"
  "\<not> (heart_rate_critical_band h \<and> heart_rate_warning_band h)"
  "\<not> (temperature_critical_band t \<and> temperature_warning_band t)"
  by (auto simp: spo2_critical_band_def spo2_warning_band_def heart_rate_critical_band_def
      heart_rate_warning_band_def temperature_critical_band_def temperature_warning_band_def)

text \<open>
  Claim C1. For every sample the counters the method computes are the band counters of
  the specification (SpO2 critical below 85 and warning from 85 to 91; heart rate
  critical below 40 or above 150 and warning outside 45..120 but inside 40..150;
  temperature critical below 35.0 or above 40.0 and warning outside 35.5..38.5 but
  inside 35.0..40.0; a detected fall one critical flag), no reading is in the critical
  and in the warning band of its signal at once, so a signal adds at most one flag and
  the critical band wins, and the status returned is Emergency when there is a critical
  flag or a fall, else Critical when there are two or more warning flags, else Warning
  when there is one, else Normal.
\<close>

theorem C1_analyze_health_decision_rule:
  "count_flags (vitals self) = (spec_warning_flags (vitals self), spec_critical_flags (vitals self))
   \<and> analyze_health self = spec_classify (vitals self)
   \<and> of_bool (spo2_critical_band (spo2 (vitals self)))
        + of_bool (spo2_warning_band (spo2 (vitals self))) \<le> (1::int)
   \<and> of_bool (heart_rate_critical_band (heart_rate (vitals self)))
        + of_bool (heart_rate_warning_band (heart_rate (vitals self))) \<le> (1::int)
   \<and> of_bool (temperature_critical_band (temperature (vitals self)))
        + of_bool (temperature_warning_band (temperature (vitals self))) \<le> (1::int)"
  using bands_exclusive(1) [of "spo2 (vitals self)"]
    bands_exclusive(2) [of "heart_rate (vitals self)"]
    bands_exclusive(3) [of "temperature (vitals self)"]
  by (simp add: count_flags_spec analyze_health_def classify_def spec_classify_def)

section \<open>Properties of the controller\<close>


lemma classify_readings:
  "classify normal_reading = NORMAL"
  "classify warning_reading = WARNING"
  "classify critical_reading = CRITICAL"
  "classify emergency_reading = EMERGENCY"
  "classify fall_reading = EMERGENCY"
  by (simp_all add: classify_def count_flags_def check_spo2_def check_heart_rate_def
      check_temperature_def check_fall_def thresholds reading_def normal_reading_def
      warning_reading_def critical_reading_def emergency_reading_def fall_reading_def)

lemma analyze_health_take_reading: "analyze_health (take_reading v self) = classify v"
  by (simp add: analyze_health_def take_reading_def)

lemma handle_NORMAL:
  "handle_health_status NORMAL self =
     (self\<lparr>monitoring_interval := 35, anomaly_count := 0, emergency_sent := False\<rparr>, [])"
  by (simp add: handle_health_status_def thresholds)

lemma handle_WARNING:
  "handle_health_status WARNING self =
     (if anomaly_count self + 1 \<ge> 2
      then self\<lparr>anomaly_count := anomaly_count self + 1, monitoring_interval := 10,
                current_state := EXTENDED_MONITORING\<rparr>
      else self\<lparr>anomaly_count := anomaly_count self + 1\<rparr>, [])"
  by (simp add: handle_health_status_def thresholds Let_def)

lemma handle_CRITICAL:
  "handle_health_status CRITICAL self =
     (self\<lparr>monitoring_interval := 10, current_state := EXTENDED_MONITORING\<rparr>,
      [\<lparr>is_emergency = False, sent_vitals = vitals self, sent_status = health_status self\<rparr>])"
  by (simp add: handle_health_status_def thresholds Let_def transmit_data_def)

lemma handle_EMERGENCY:
  "handle_health_status EMERGENCY self =
     (self\<lparr>monitoring_interval := 5, current_state := EMERGENCY_STATE, emergency_sent := True\<rparr>,
      if emergency_sent self then []
      else [\<lparr>is_emergency = True, sent_vitals = vitals self, sent_status = health_status self\<rparr>])"
  by (simp add: handle_health_status_def thresholds Let_def transmit_data_def)

lemma cycle_NORMAL:
  "classify v = NORMAL \<Longrightarrow> monitoring_cycle v self =
     (power_down (self\<lparr>vitals := v, measurement_count := measurement_count self + 1,
        health_status := NORMAL, monitoring_interval := 35, anomaly_count := 0,
        emergency_sent := False\<rparr>), [])"
  by (simp add: monitoring_cycle_def analyze_and_handle_def analyze_health_def
      handle_NORMAL take_reading_def)

lemma cycle_EMERGENCY:
  "classify v = EMERGENCY \<Longrightarrow> monitoring_cycle v self =
     (self\<lparr>vitals := v, measurement_count := measurement_count self + 1,
        health_status := EMERGENCY, monitoring_interval := 5, current_state := EMERGENCY_STATE,
        emergency_sent := True\<rparr>,
      if emergency_sent self then []
      else [\<lparr>is_emergency = True, sent_vitals = v, sent_status = EMERGENCY\<rparr>])"
  by (simp add: monitoring_cycle_def analyze_and_handle_def analyze_health_def
      handle_EMERGENCY take_reading_def power_down_def)

lemma cycle_CRITICAL:
  "classify v = CRITICAL \<Longrightarrow> monitoring_cycle v self =
     (self\<lparr>vitals := v, measurement_count := measurement_count self + 1,
        health_status := CRITICAL, monitoring_interval := 10, current_state := EXTENDED_MONITORING\<rparr>,
      [\<lparr>is_emergency = False, sent_vitals = v, sent_status = CRITICAL\<rparr>])"
  by (simp add: monitoring_cycle_def analyze_and_handle_def analyze_health_def
      handle_CRITICAL take_reading_def power_down_def)

lemma cycle_WARNING:
  "classify v = WARNING \<Longrightarrow> monitoring_cycle v self =
     (if anomaly_count self + 1 \<ge> 2
      then self\<lparr>vitals := v, measurement_count := measurement_count self + 1,
        health_status := WARNING, anomaly_count := anomaly_count self + 1,
        monitoring_interval := 10, current_state := EXTENDED_MONITORING\<rparr>
      else power_down (self\<lparr>vitals := v, measurement_count := measurement_count self + 1,
        health_status := WARNING, anomaly_count := anomaly_count self + 1\<rparr>), [])"
  by (simp add: monitoring_cycle_def analyze_and_handle_def analyze_health_def
      handle_WARNING take_reading_def power_down_def)

lemma acquisition_steps_frame:
  "current_state (read_normal_values d self) = current_state self"
  "health_status (read_normal_values d self) = health_status self"
  "monitoring_interval (read_normal_values d self) = monitoring_interval self"
  "anomaly_count (read_normal_values d self) = anomaly_count self"
  "emergency_sent (read_normal_values d self) = emergency_sent self"
  "measurement_count (read_normal_values d self) = measurement_count self"
  "current_state (count_measurement self) = current_state self"
  "health_status (count_measurement self) = health_status self"
  "monitoring_interval (count_measurement self) = monitoring_interval self"
  "anomaly_count (count_measurement self) = anomaly_count self"
  "emergency_sent (count_measurement self) = emergency_sent self"
  "measurement_count (count_measurement self) = measurement_count self + 1"
  "current_state (inject_low_spo2 d self) = current_state self"
  "health_status (inject_low_spo2 d self) = health_status self"
  "monitoring_interval (inject_low_spo2 d self) = monitoring_interval self"
  "anomaly_count (inject_low_spo2 d self) = anomaly_count self"
  "emergency_sent (inject_low_spo2 d self) = emergency_sent self"
  "measurement_count (inject_low_spo2 d self) = measurement_count self"
  "current_state (inject_high_heart_rate d self) = current_state self"
  "health_status (inject_high_heart_rate d self) = health_status self"
  "monitoring_interval (inject_high_heart_rate d self) = monitoring_interval self"
  "anomaly_count (inject_high_heart_rate d self) = anomaly_count self"
  "emergency_sent (inject_high_heart_rate d self) = emergency_sent self"
  "measurement_count (inject_high_heart_rate d self) = measurement_count self"
  "current_state (inject_fall d self) = current_state self"
  "health_status (inject_fall d self) = health_status self"
  "monitoring_interval (inject_fall d self) = monitoring_interval self"
  "anomaly_count (inject_fall d self) = anomaly_count self"
  "emergency_sent (inject_fall d self) = emergency_sent self"
  "measurement_count (inject_fall d self) = measurement_count self"
  by (simp_all add: read_normal_values_def count_measurement_def inject_low_spo2_def
      inject_high_heart_rate_def inject_fall_def)

text \<open>
  The acquisition step always yields a sample: \<^verbatim>\<open>simulate_sensor_readings\<close> has no
  failing outcome. It replaces the sample and counts the measurement, and leaves the
  state, the interval, the anomaly counter and the latch as they are.
\<close>

lemma simulate_sensor_readings_frame:
  "current_state (simulate_sensor_readings d self) = current_state self"
  "health_status (simulate_sensor_readings d self) = health_status self"
  "monitoring_interval (simulate_sensor_readings d self) = monitoring_interval self"
  "anomaly_count (simulate_sensor_readings d self) = anomaly_count self"
  "emergency_sent (simulate_sensor_readings d self) = emergency_sent self"
  "measurement_count (simulate_sensor_readings d self) = measurement_count self + 1"
  by (simp_all only: simulate_sensor_readings_def acquisition_steps_frame)

lemma simulate_sensor_readings_take_reading:
  "simulate_sensor_readings d self = take_reading (vitals (simulate_sensor_readings d self)) self"
  by (rule MinerHealthMonitor.equality)
    (simp_all add: simulate_sensor_readings_frame take_reading_def)

lemma run_cycle_monitoring_cycle:
  "run_cycle d self = monitoring_cycle (vitals (simulate_sensor_readings d self)) self"
  unfolding run_cycle_def monitoring_cycle_def
  using simulate_sensor_readings_take_reading by simp

lemma run_monitoring_cycles:
  "run ds self = monitoring_cycles (simulated_samples ds self) self"
proof (induction ds arbitrary: self)
  case Nil
  show ?case by simp
next
  case (Cons d ds)
  show ?case
    by (simp add: run_cycle_monitoring_cycle [symmetric] Cons.IH split: prod.splits)
qed


lemma every_status_has_a_reading: "\<exists>vs. map classify vs = statuses"
proof (induction statuses)
  case Nil
  show ?case by simp
next
  case (Cons s statuses)
  then obtain vs where vs: "map classify vs = statuses" by blast
  obtain v where "classify v = s"
    by (cases s) (use classify_readings in blast)+
  with vs have "map classify (v # vs) = s # statuses" by simp
  then show ?case by (rule exI)
qed

lemma monitoring_cycles_append:
  "fst (monitoring_cycles (vs @ ws) self) = fst (monitoring_cycles ws (fst (monitoring_cycles vs self)))"
  by (induction vs arbitrary: self) (simp_all add: case_prod_beta)

lemma monitoring_cycles_snoc:
  "fst (monitoring_cycles (vs @ [v]) self) = fst (monitoring_cycle v (fst (monitoring_cycles vs self)))"
  by (simp add: monitoring_cycles_append case_prod_beta)

lemma cycle_anomaly_count:
  "anomaly_count (fst (monitoring_cycle v self)) =
     (case classify v of NORMAL \<Rightarrow> 0 | WARNING \<Rightarrow> anomaly_count self + 1
      | CRITICAL \<Rightarrow> anomaly_count self | EMERGENCY \<Rightarrow> anomaly_count self)"
  by (cases "classify v")
    (simp_all add: cycle_NORMAL cycle_WARNING cycle_CRITICAL cycle_EMERGENCY power_down_def)

lemma anomaly_count_cycles:
  "anomaly_count (fst (monitoring_cycles vs self)) =
     (if NORMAL \<in> set (map classify vs) then 0 else anomaly_count self)
       + int (warnings_since_normal (map classify vs))"
proof (induction vs rule: rev_induct)
  case Nil
  show ?case by (simp add: warnings_since_normal_def)
next
  case (snoc v vs)
  show ?case
    by (cases "classify v")
      (simp_all add: monitoring_cycles_snoc cycle_anomaly_count snoc.IH warnings_since_normal_def)
qed

text \<open>
  Claim C6, as amended. At every point of a run from the initial monitor, the anomaly
  counter is the number of cycles classified Warning since the last cycle classified
  Normal (or since the start): a Warning cycle adds one, a Critical or an Emergency cycle
  leaves the counter as it is, and a Normal cycle sets it to 0.
\<close>

theorem C6_anomaly_count_counts_warnings:
  "anomaly_count (fst (monitoring_cycles vs MinerHealthMonitor_init))
     = int (warnings_since_normal (map classify vs))"
  by (simp add: anomaly_count_cycles MinerHealthMonitor_init_def)

text \<open>
  Claim C6 as stated fails: after one cycle classified Critical from the initial monitor
  the streak of Warning-or-worse cycles has length 1 and the anomaly counter is 0.
\<close>

theorem C6_streak_counterexample:
  "anomaly_count (fst (monitoring_cycles [critical_reading] MinerHealthMonitor_init))
     \<noteq> int (anomaly_streak (map classify [critical_reading]))"
  by (simp add: classify_readings cycle_CRITICAL MinerHealthMonitor_init_def anomaly_streak_def)

lemma cycle_interval:
  "monitoring_interval (fst (monitoring_cycle v self)) \<in> {35, 10, 5, monitoring_interval self}"
  by (cases "classify v")
    (simp_all add: cycle_NORMAL cycle_WARNING cycle_CRITICAL cycle_EMERGENCY power_down_def)

lemma cycles_interval:
  "monitoring_interval self \<in> {35, 10, 5} \<Longrightarrow>
   monitoring_interval (fst (monitoring_cycles vs self)) \<in> {35, 10, 5}"
proof (induction vs rule: rev_induct)
  case Nil
  then show ?case by simp
next
  case (snoc v vs)
  with cycle_interval [of v "fst (monitoring_cycles vs self)"] show ?case
    by (auto simp: monitoring_cycles_snoc)
qed

lemma handle_interval:
  "monitoring_interval (fst (handle_health_status status self)) \<in> {35, 10, 5, monitoring_interval self}"
  by (cases status) (simp_all add: handle_NORMAL handle_WARNING handle_CRITICAL handle_EMERGENCY)

text \<open>
  Claim C8. The monitoring interval is 35 at initialisation; a call of
  \<^verbatim>\<open>handle_health_status\<close> leaves it at 35, 10 or 5 or as it was, for every status
  and every monitor; so after every sequence of cycles from the initial monitor, on given
  samples or on the simulator's draws, it is one of 35, 10 and 5.
\<close>

theorem C8_interval_one_of_three:
  "monitoring_interval MinerHealthMonitor_init = 35
   \<and> NORMAL_INTERVAL = 35 \<and> EXTENDED_INTERVAL = 10 \<and> EMERGENCY_INTERVAL = 5
   \<and> monitoring_interval (fst (handle_health_status status self))
        \<in> {35, 10, 5, monitoring_interval self}
   \<and> monitoring_interval (fst (monitoring_cycles vs MinerHealthMonitor_init)) \<in> {35, 10, 5}
   \<and> monitoring_interval (fst (run ds MinerHealthMonitor_init)) \<in> {35, 10, 5}"
  using handle_interval [of status self]
    cycles_interval [of MinerHealthMonitor_init vs]
    cycles_interval [of MinerHealthMonitor_init "simulated_samples ds MinerHealthMonitor_init"]
  by (simp add: run_monitoring_cycles MinerHealthMonitor_init_def thresholds)


lemma emergency_cycles_latched:
  "\<forall>v\<in>set vs. classify v = EMERGENCY \<Longrightarrow> emergency_sent self \<Longrightarrow>
   snd (monitoring_cycles vs self) = replicate (length vs) []
   \<and> emergency_sent (fst (monitoring_cycles vs self))"
proof (induction vs arbitrary: self)
  case Nil
  then show ?case by simp
next
  case (Cons v vs)
  then have v: "classify v = EMERGENCY" by simp
  have sent: "emergency_sent (fst (monitoring_cycle v self))"
    by (simp add: cycle_EMERGENCY [OF v])
  have none: "snd (monitoring_cycle v self) = []"
    using Cons.prems(2) by (simp add: cycle_EMERGENCY [OF v])
  from Cons.IH [OF _ sent] Cons.prems(1) none show ?case
    by (simp add: case_prod_beta)
qed

lemma emergency_cycles_state:
  "\<forall>v\<in>set vs. classify v = EMERGENCY \<Longrightarrow>
   monitoring_interval self = 5 \<and> current_state self = EMERGENCY_STATE \<and> emergency_sent self \<Longrightarrow>
   monitoring_interval (fst (monitoring_cycles vs self)) = 5
   \<and> current_state (fst (monitoring_cycles vs self)) = EMERGENCY_STATE
   \<and> emergency_sent (fst (monitoring_cycles vs self))"
proof (induction vs arbitrary: self)
  case Nil
  then show ?case by simp
next
  case (Cons v vs)
  then have v: "classify v = EMERGENCY" by simp
  have "monitoring_interval (fst (monitoring_cycle v self)) = 5
    \<and> current_state (fst (monitoring_cycle v self)) = EMERGENCY_STATE
    \<and> emergency_sent (fst (monitoring_cycle v self))"
    by (simp add: cycle_EMERGENCY [OF v])
  from Cons.IH [OF _ this] Cons.prems(1) show ?case
    by (simp add: case_prod_beta)
qed

lemma latch_rearmed_only_by_normal:
  "emergency_sent self \<Longrightarrow> classify v \<noteq> NORMAL \<Longrightarrow> emergency_sent (fst (monitoring_cycle v self))"
  by (cases "classify v")
    (simp_all add: cycle_WARNING cycle_CRITICAL cycle_EMERGENCY power_down_def)

lemma emergency_run:
  "(classify v = EMERGENCY \<and> (\<forall>w\<in>set vs. classify w = EMERGENCY) \<longrightarrow>
      map (map is_emergency) (snd (monitoring_cycles (v # vs) self))
        = (if emergency_sent self then [] else [True]) # replicate (length vs) []
      \<and> monitoring_interval (fst (monitoring_cycles (v # vs) self)) = 5
      \<and> current_state (fst (monitoring_cycles (v # vs) self)) = EMERGENCY_STATE
      \<and> emergency_sent (fst (monitoring_cycles (v # vs) self)))
   \<and> (classify v = EMERGENCY \<longrightarrow>
        monitoring_interval (fst (monitoring_cycle v self)) = EMERGENCY_INTERVAL
        \<and> EMERGENCY_INTERVAL = 5
        \<and> current_state (fst (monitoring_cycle v self)) = EMERGENCY_STATE)
   \<and> (emergency_sent self \<and> \<not> emergency_sent (fst (monitoring_cycle v self))
        \<longrightarrow> classify v = NORMAL)"
proof (intro conjI impI)
  assume h: "classify v = EMERGENCY \<and> (\<forall>w\<in>set vs. classify w = EMERGENCY)"
  then have v: "classify v = EMERGENCY" and vs: "\<forall>w\<in>set vs. classify w = EMERGENCY"
    by simp_all
  let ?s = "fst (monitoring_cycle v self)"
  have s: "monitoring_interval ?s = 5 \<and> current_state ?s = EMERGENCY_STATE \<and> emergency_sent ?s"
    by (simp add: cycle_EMERGENCY [OF v])
  have first: "map is_emergency (snd (monitoring_cycle v self))
      = (if emergency_sent self then [] else [True])"
    by (simp add: cycle_EMERGENCY [OF v])
  have rest: "snd (monitoring_cycles vs ?s) = replicate (length vs) []"
    using emergency_cycles_latched [OF vs] s by simp
  show "map (map is_emergency) (snd (monitoring_cycles (v # vs) self))
        = (if emergency_sent self then [] else [True]) # replicate (length vs) []"
    using first rest by (simp add: case_prod_beta)
  from emergency_cycles_state [OF vs s]
  show "monitoring_interval (fst (monitoring_cycles (v # vs) self)) = 5"
    and "current_state (fst (monitoring_cycles (v # vs) self)) = EMERGENCY_STATE"
    and "emergency_sent (fst (monitoring_cycles (v # vs) self))"
    by (simp_all add: case_prod_beta)
next
  assume v: "classify v = EMERGENCY"
  show "monitoring_interval (fst (monitoring_cycle v self)) = EMERGENCY_INTERVAL"
    and "EMERGENCY_INTERVAL = 5"
    and "current_state (fst (monitoring_cycle v self)) = EMERGENCY_STATE"
    by (simp_all add: cycle_EMERGENCY [OF v] thresholds)
next
  assume "emergency_sent self \<and> \<not> emergency_sent (fst (monitoring_cycle v self))"
  then show "classify v = NORMAL"
    using latch_rearmed_only_by_normal [of self v] by blast
qed

text \<open>
  Claim C3. On status Critical \<^verbatim>\<open>handle_health_status\<close> sets the interval to the
  Extended value, 10, and the state to ExtendedMonitoring and transmits with
  \<^verbatim>\<open>is_emergency=False\<close>, whatever the monitor (the latch is neither read nor
  written); so every cycle classified Critical makes exactly one such transmission, and
  a sequence of cycles all classified Critical transmits on each of them.
\<close>

theorem C3_critical_always_transmits:
  "handle_health_status CRITICAL self =
     (self\<lparr>monitoring_interval := EXTENDED_INTERVAL, current_state := EXTENDED_MONITORING\<rparr>,
      [transmit_data False
         (self\<lparr>monitoring_interval := EXTENDED_INTERVAL, current_state := EXTENDED_MONITORING\<rparr>)])
   \<and> EXTENDED_INTERVAL = 10
   \<and> (classify v = CRITICAL \<longrightarrow>
        map is_emergency (snd (monitoring_cycle v self)) = [False]
        \<and> monitoring_interval (fst (monitoring_cycle v self)) = 10
        \<and> current_state (fst (monitoring_cycle v self)) = EXTENDED_MONITORING
        \<and> emergency_sent (fst (monitoring_cycle v self)) = emergency_sent self)
   \<and> ((\<forall>w\<in>set vs. classify w = CRITICAL) \<longrightarrow>
        map (map is_emergency) (snd (monitoring_cycles vs self)) = replicate (length vs) [False])"
proof (intro conjI impI)
  show "handle_health_status CRITICAL self =
     (self\<lparr>monitoring_interval := EXTENDED_INTERVAL, current_state := EXTENDED_MONITORING\<rparr>,
      [transmit_data False
         (self\<lparr>monitoring_interval := EXTENDED_INTERVAL, current_state := EXTENDED_MONITORING\<rparr>)])"
    by (simp add: handle_health_status_def Let_def)
  show "EXTENDED_INTERVAL = 10" by (simp add: thresholds)
next
  assume v: "classify v = CRITICAL"
  show "map is_emergency (snd (monitoring_cycle v self)) = [False]"
    and "monitoring_interval (fst (monitoring_cycle v self)) = 10"
    and "current_state (fst (monitoring_cycle v self)) = EXTENDED_MONITORING"
    and "emergency_sent (fst (monitoring_cycle v self)) = emergency_sent self"
    by (simp_all add: cycle_CRITICAL [OF v])
next
  assume "\<forall>w\<in>set vs. classify w = CRITICAL"
  then show "map (map is_emergency) (snd (monitoring_cycles vs self)) = replicate (length vs) [False]"
  proof (induction vs arbitrary: self)
    case Nil
    show ?case by simp
  next
    case (Cons w ws)
    then have w: "classify w = CRITICAL" by simp
    from Cons.IH [of "fst (monitoring_cycle w self)"] Cons.prems show ?case
      by (simp add: case_prod_beta cycle_CRITICAL [OF w])
  qed
qed

theorem C3_critical_always_transmits_witness:
  "map (map is_emergency)
     (snd (monitoring_cycles [critical_reading, critical_reading]
        (MinerHealthMonitor_init\<lparr>emergency_sent := True\<rparr>))) = [[False], [False]]
   \<and> classify critical_reading = CRITICAL
   \<and> monitoring_interval (fst (monitoring_cycle critical_reading
        (MinerHealthMonitor_init\<lparr>emergency_sent := True\<rparr>))) = 10"
  using C3_critical_always_transmits
    [of "MinerHealthMonitor_init\<lparr>emergency_sent := True\<rparr>" critical_reading
        "[critical_reading, critical_reading]"]
  by (simp add: classify_readings)


lemma cycle_current_state:
  "current_state (fst (monitoring_cycle v self))
     \<in> {SLEEP, EXTENDED_MONITORING, EMERGENCY_STATE}"
  by (cases "classify v")
    (simp_all add: cycle_NORMAL cycle_WARNING cycle_CRITICAL cycle_EMERGENCY power_down_def)

lemma cycles_current_state:
  "current_state (fst (monitoring_cycles vs MinerHealthMonitor_init))
     \<in> {SLEEP, EXTENDED_MONITORING, EMERGENCY_STATE}"
proof (cases vs rule: rev_cases)
  case Nil
  then show ?thesis by (simp add: MinerHealthMonitor_init_def)
next
  case (snoc ws w)
  then show ?thesis
    using cycle_current_state [of w "fst (monitoring_cycles ws MinerHealthMonitor_init)"]
    by (simp add: monitoring_cycles_snoc)
qed

text \<open>
  Claim C4. On status Warning \<^verbatim>\<open>handle_health_status\<close> adds one to the anomaly
  counter and, when the new count is at least 2, sets the interval to the Extended
  value, 10, and the state to ExtendedMonitoring; otherwise it changes nothing else. A
  cycle classified Warning adds one to the counter and transmits nothing. Two
  consecutive cycles classified Warning, from a monitor whose counter is 0, end in
  ExtendedMonitoring with interval 10; a single Warning from a counter of 0 leaves the
  interval and the state as they were, in the handler for every monitor and in the
  whole cycle at every point of a run from the initial monitor.
\<close>

theorem C4_warning_escalates_on_second:
  "handle_health_status WARNING self =
     (if anomaly_count self + 1 \<ge> 2
      then self\<lparr>anomaly_count := anomaly_count self + 1,
                monitoring_interval := EXTENDED_INTERVAL,
                current_state := EXTENDED_MONITORING\<rparr>
      else self\<lparr>anomaly_count := anomaly_count self + 1\<rparr>, [])
   \<and> EXTENDED_INTERVAL = 10
   \<and> (classify v = WARNING \<longrightarrow>
        anomaly_count (fst (monitoring_cycle v self)) = anomaly_count self + 1
        \<and> snd (monitoring_cycle v self) = [])
   \<and> (classify v = WARNING \<and> classify w = WARNING \<and> anomaly_count self = 0 \<longrightarrow>
        current_state (fst (monitoring_cycles [v, w] self)) = EXTENDED_MONITORING
        \<and> monitoring_interval (fst (monitoring_cycles [v, w] self)) = 10)
   \<and> (anomaly_count self = 0 \<longrightarrow>
        monitoring_interval (fst (handle_health_status WARNING self)) = monitoring_interval self
        \<and> current_state (fst (handle_health_status WARNING self)) = current_state self)
   \<and> (classify v = WARNING
        \<and> anomaly_count (fst (monitoring_cycles vs MinerHealthMonitor_init)) = 0 \<longrightarrow>
        monitoring_interval
            (fst (monitoring_cycle v (fst (monitoring_cycles vs MinerHealthMonitor_init))))
          = monitoring_interval (fst (monitoring_cycles vs MinerHealthMonitor_init))
        \<and> current_state
            (fst (monitoring_cycle v (fst (monitoring_cycles vs MinerHealthMonitor_init))))
          = current_state (fst (monitoring_cycles vs MinerHealthMonitor_init)))"
proof (intro conjI impI)
  show "handle_health_status WARNING self =
     (if anomaly_count self + 1 \<ge> 2
      then self\<lparr>anomaly_count := anomaly_count self + 1,
                monitoring_interval := EXTENDED_INTERVAL,
                current_state := EXTENDED_MONITORING\<rparr>
      else self\<lparr>anomaly_count := anomaly_count self + 1\<rparr>, [])"
    by (simp add: handle_health_status_def Let_def)
  show "EXTENDED_INTERVAL = 10" by (simp add: thresholds)
next
  assume v: "classify v = WARNING"
  show "anomaly_count (fst (monitoring_cycle v self)) = anomaly_count self + 1"
    and "snd (monitoring_cycle v self) = []"
    by (simp_all add: cycle_WARNING [OF v] power_down_def)
next
  assume h: "classify v = WARNING \<and> classify w = WARNING \<and> anomaly_count self = 0"
  then have v: "classify v = WARNING" and w: "classify w = WARNING"
    and z: "anomaly_count self = 0" by simp_all
  have one: "anomaly_count (fst (monitoring_cycle v self)) = 1"
    using z by (simp add: cycle_WARNING [OF v] power_down_def)
  show "current_state (fst (monitoring_cycles [v, w] self)) = EXTENDED_MONITORING"
    and "monitoring_interval (fst (monitoring_cycles [v, w] self)) = 10"
    using one by (simp_all add: case_prod_beta cycle_WARNING [OF w])
next
  assume z: "anomaly_count self = 0"
  show "monitoring_interval (fst (handle_health_status WARNING self)) = monitoring_interval self"
    and "current_state (fst (handle_health_status WARNING self)) = current_state self"
    using z by (simp_all add: handle_WARNING)
next
  let ?s = "fst (monitoring_cycles vs MinerHealthMonitor_init)"
  assume h: "classify v = WARNING \<and> anomaly_count ?s = 0"
  then have v: "classify v = WARNING" and z: "anomaly_count ?s = 0" by simp_all
  show "monitoring_interval (fst (monitoring_cycle v ?s)) = monitoring_interval ?s"
    using z by (simp add: cycle_WARNING [OF v] power_down_def)
  show "current_state (fst (monitoring_cycle v ?s)) = current_state ?s"
    using z cycles_current_state [of vs]
    by (auto simp: cycle_WARNING [OF v] power_down_def)
qed

theorem C4_warning_escalates_on_second_witness:
  "classify warning_reading = WARNING
   \<and> anomaly_count MinerHealthMonitor_init = 0
   \<and> anomaly_count (fst (monitoring_cycles [] MinerHealthMonitor_init)) = 0
   \<and> current_state (fst (monitoring_cycles [warning_reading, warning_reading]
        MinerHealthMonitor_init)) = EXTENDED_MONITORING
   \<and> monitoring_interval (fst (monitoring_cycles [warning_reading, warning_reading]
        MinerHealthMonitor_init)) = 10
   \<and> current_state (fst (monitoring_cycle warning_reading MinerHealthMonitor_init)) = SLEEP
   \<and> monitoring_interval (fst (monitoring_cycle warning_reading MinerHealthMonitor_init)) = 35
   \<and> anomaly_count (fst (monitoring_cycle warning_reading MinerHealthMonitor_init)) = 1"
  using C4_warning_escalates_on_second
    [of MinerHealthMonitor_init warning_reading warning_reading "[]"]
  by (simp add: classify_readings MinerHealthMonitor_init_def thresholds)

text \<open>
  A cycle classified Normal resets the counter, the latch and the interval, and
  transmits nothing. The state goes to Sleep only from a state other than Emergency and
  ExtendedMonitoring: the Normal branch of \<^verbatim>\<open>handle_health_status\<close> does not assign
  \<^verbatim>\<open>current_state\<close>, and the \<^verbatim>\<open>else\<close> of \<^verbatim>\<open>run\<close> that assigns Sleep is
  not reached from those two states.
\<close>

lemma normal_cycle_resets:
  "classify v = NORMAL \<Longrightarrow>
   anomaly_count (fst (monitoring_cycle v self)) = 0
   \<and> emergency_sent (fst (monitoring_cycle v self)) = False
   \<and> monitoring_interval (fst (monitoring_cycle v self)) = 35
   \<and> snd (monitoring_cycle v self) = []
   \<and> current_state (fst (monitoring_cycle v self)) =
       (if current_state self = EMERGENCY_STATE then EMERGENCY_STATE
        else if current_state self = EXTENDED_MONITORING then EXTENDED_MONITORING
        else SLEEP)"
  by (simp add: cycle_NORMAL power_down_def)

text \<open>
  Claim C5, evaluated. From the initial monitor, a cycle with a fall (classified
  Emergency) followed by a cycle classified Normal ends with the counter 0, the latch
  cleared and the interval 35, and with the state still Emergency, not Sleep.
\<close>

theorem C5_normal_cycle_after_emergency:
  "classify fall_reading = EMERGENCY \<and> classify normal_reading = NORMAL
   \<and> current_state (fst (monitoring_cycles [fall_reading, normal_reading]
        MinerHealthMonitor_init)) = EMERGENCY_STATE
   \<and> monitoring_interval (fst (monitoring_cycles [fall_reading, normal_reading]
        MinerHealthMonitor_init)) = 35
   \<and> anomaly_count (fst (monitoring_cycles [fall_reading, normal_reading]
        MinerHealthMonitor_init)) = 0
   \<and> emergency_sent (fst (monitoring_cycles [fall_reading, normal_reading]
        MinerHealthMonitor_init)) = False"
  by (simp add: classify_readings cycle_EMERGENCY cycle_NORMAL power_down_def
      MinerHealthMonitor_init_def case_prod_beta)

lemma classify_no_fall:
  "\<not> fall_detected v \<Longrightarrow>
   classify v = Graphical_analyze_health (heart_rate v) (spo2 v) (temperature v)"
  by (simp add: classify_def count_flags_def check_spo2_def check_heart_rate_def
      check_temperature_def check_fall_def Graphical_analyze_health_def thresholds)

text \<open>
  Claim C10. On a sample without a fall, \<^verbatim>\<open>MinerHealthMonitor.analyze_health\<close> and
  \<^verbatim>\<open>MinerHealthMonitorGraphical.analyze_health\<close>, given the heart rate, SpO2 and
  temperature of the sample, return the same status.
\<close>

theorem C10_simulation_and_dashboard_agree:
  "\<not> fall_detected (vitals self) \<Longrightarrow>
   analyze_health self =
     Graphical_analyze_health (heart_rate (vitals self)) (spo2 (vitals self))
       (temperature (vitals self))"
  by (simp add: analyze_health_def classify_no_fall)

theorem C10_simulation_and_dashboard_agree_witness:
  "\<not> fall_detected (vitals (MinerHealthMonitor_init\<lparr>vitals := critical_reading\<rparr>))
   \<and> analyze_health (MinerHealthMonitor_init\<lparr>vitals := critical_reading\<rparr>) = CRITICAL
   \<and> Graphical_analyze_health (heart_rate critical_reading) (spo2 critical_reading)
        (temperature critical_reading) = CRITICAL"
proof -
  have no_fall: "\<not> fall_detected critical_reading"
    by (simp add: critical_reading_def reading_def)
  show ?thesis
    using C10_simulation_and_dashboard_agree
      [of "MinerHealthMonitor_init\<lparr>vitals := critical_reading\<rparr>"] no_fall
    by (simp add: analyze_health_def classify_readings)
qed

text \<open>
  With a fall the two differ: the dashboard variant has no fall input.
\<close>

lemma fall_separates_the_classifiers:
  "classify fall_reading = EMERGENCY
   \<and> Graphical_analyze_health (heart_rate fall_reading) (spo2 fall_reading)
        (temperature fall_reading) = NORMAL"
proof
  show "classify fall_reading = EMERGENCY" by (simp add: classify_readings)
  show "Graphical_analyze_health (heart_rate fall_reading) (spo2 fall_reading)
        (temperature fall_reading) = NORMAL"
    by (simp add: fall_reading_def reading_def Graphical_analyze_health_def thresholds)
qed

lemma calm_draws_in_range: "draws_in_range calm_draws"
  by (simp add: draws_in_range_def calm_draws_def)


text \<open>
  The same on the simulator with draws in range: cycle 15 injects a fall, cycle 16 a low
  SpO2, cycle 17 is classified Normal and the state is still Emergency, at interval 35.
\<close>

lemma simulated_cycle_17:
  "current_state (fst (run (replicate 17 calm_draws) MinerHealthMonitor_init)) = EMERGENCY_STATE
   \<and> health_status (fst (run (replicate 17 calm_draws) MinerHealthMonitor_init)) = NORMAL
   \<and> monitoring_interval (fst (run (replicate 17 calm_draws) MinerHealthMonitor_init)) = 35"
  by code_simp


section \<open>Emergency episodes and the latch\<close>

lemma cycle_emergency_sent:
  "emergency_sent (fst (monitoring_cycle v self)) =
     (case classify v of NORMAL \<Rightarrow> False | WARNING \<Rightarrow> emergency_sent self
      | CRITICAL \<Rightarrow> emergency_sent self | EMERGENCY \<Rightarrow> True)"
  by (cases "classify v")
    (simp_all add: cycle_NORMAL cycle_WARNING cycle_CRITICAL cycle_EMERGENCY power_down_def)

text \<open>
  At every point of a run from the initial monitor the latch is set exactly when some
  cycle since the last cycle classified Normal was classified Emergency.
\<close>

lemma emergency_sent_cycles:
  "emergency_sent (fst (monitoring_cycles vs MinerHealthMonitor_init))
     = emergency_since_normal (map classify vs)"
proof (induction vs rule: rev_induct)
  case Nil
  show ?case by (simp add: emergency_since_normal_def MinerHealthMonitor_init_def)
next
  case (snoc v vs)
  show ?case
    using snoc.IH
    by (cases "classify v")
      (simp_all add: monitoring_cycles_snoc cycle_emergency_sent emergency_since_normal_def)
qed

lemma monitoring_cycles_sent_append:
  "snd (monitoring_cycles (vs @ ws) self) =
     snd (monitoring_cycles vs self) @ snd (monitoring_cycles ws (fst (monitoring_cycles vs self)))"
  by (induction vs arbitrary: self) (simp_all add: case_prod_beta)

lemma monitoring_cycles_sent_length:
  "length (snd (monitoring_cycles vs self)) = length vs"
  by (induction vs arbitrary: self) (simp_all add: case_prod_beta)

text \<open>
  Claim C2, as amended. A run of consecutive cycles classified Emergency transmits with
  \<^verbatim>\<open>is_emergency=True\<close> at most once, and only on its first cycle: exactly once when
  \<^verbatim>\<open>emergency_sent\<close> is false there, which at any point of a run from the initial
  monitor means that no cycle since the last cycle classified Normal (or since the
  start) was classified Emergency, and not at all when the latch is still set; no later
  cycle of the run transmits. The run ends with the latch set, the interval 5 and the
  state Emergency, and every cycle classified Emergency sets the interval to the
  Emergency value, 5, and the state to Emergency. Every cycle classified Normal clears
  the latch, and a cycle that finds the latch set and leaves it cleared is a cycle
  classified Normal.
\<close>

theorem C2_emergency_transmits_at_most_once_per_episode:
  "(classify v = EMERGENCY \<and> (\<forall>w\<in>set vs. classify w = EMERGENCY) \<longrightarrow>
      map (map is_emergency)
          (drop (length ps) (snd (monitoring_cycles (ps @ v # vs) MinerHealthMonitor_init)))
        = (if emergency_since_normal (map classify ps) then [] else [True])
            # replicate (length vs) []
      \<and> map (map is_emergency) (snd (monitoring_cycles (v # vs) self))
        = (if emergency_sent self then [] else [True]) # replicate (length vs) []
      \<and> monitoring_interval (fst (monitoring_cycles (v # vs) self)) = 5
      \<and> current_state (fst (monitoring_cycles (v # vs) self)) = EMERGENCY_STATE
      \<and> emergency_sent (fst (monitoring_cycles (v # vs) self)))
   \<and> (classify v = EMERGENCY \<longrightarrow>
        monitoring_interval (fst (monitoring_cycle v self)) = EMERGENCY_INTERVAL
        \<and> EMERGENCY_INTERVAL = 5
        \<and> current_state (fst (monitoring_cycle v self)) = EMERGENCY_STATE)
   \<and> emergency_sent (fst (monitoring_cycles ps MinerHealthMonitor_init))
        = emergency_since_normal (map classify ps)
   \<and> (classify v = NORMAL \<longrightarrow> \<not> emergency_sent (fst (monitoring_cycle v self)))
   \<and> (emergency_sent self \<and> \<not> emergency_sent (fst (monitoring_cycle v self))
        \<longrightarrow> classify v = NORMAL)"
proof (intro conjI impI)
  assume h: "classify v = EMERGENCY \<and> (\<forall>w\<in>set vs. classify w = EMERGENCY)"
  let ?s = "fst (monitoring_cycles ps MinerHealthMonitor_init)"
  have split: "drop (length ps) (snd (monitoring_cycles (ps @ v # vs) MinerHealthMonitor_init))
      = snd (monitoring_cycles (v # vs) ?s)"
    by (simp add: monitoring_cycles_sent_append monitoring_cycles_sent_length)
  from h emergency_run [of v vs ?s]
  have "map (map is_emergency) (snd (monitoring_cycles (v # vs) ?s))
      = (if emergency_sent ?s then [] else [True]) # replicate (length vs) []"
    by blast
  then show "map (map is_emergency)
          (drop (length ps) (snd (monitoring_cycles (ps @ v # vs) MinerHealthMonitor_init)))
        = (if emergency_since_normal (map classify ps) then [] else [True])
            # replicate (length vs) []"
    by (simp only: split emergency_sent_cycles)
  from h emergency_run [of v vs self]
  show "map (map is_emergency) (snd (monitoring_cycles (v # vs) self))
        = (if emergency_sent self then [] else [True]) # replicate (length vs) []"
    and "monitoring_interval (fst (monitoring_cycles (v # vs) self)) = 5"
    and "current_state (fst (monitoring_cycles (v # vs) self)) = EMERGENCY_STATE"
    and "emergency_sent (fst (monitoring_cycles (v # vs) self))"
    by blast+
next
  assume v: "classify v = EMERGENCY"
  show "monitoring_interval (fst (monitoring_cycle v self)) = EMERGENCY_INTERVAL"
    and "EMERGENCY_INTERVAL = 5"
    and "current_state (fst (monitoring_cycle v self)) = EMERGENCY_STATE"
    by (simp_all add: cycle_EMERGENCY [OF v] thresholds)
next
  show "emergency_sent (fst (monitoring_cycles ps MinerHealthMonitor_init))
        = emergency_since_normal (map classify ps)"
    by (rule emergency_sent_cycles)
next
  assume "classify v = NORMAL"
  then show "\<not> emergency_sent (fst (monitoring_cycle v self))"
    by (simp add: cycle_emergency_sent)
next
  assume "emergency_sent self \<and> \<not> emergency_sent (fst (monitoring_cycle v self))"
  then show "classify v = NORMAL"
    using latch_rearmed_only_by_normal [of self v] by blast
qed

theorem C2_emergency_transmits_at_most_once_witness:
  "classify emergency_reading = EMERGENCY
   \<and> map (map is_emergency)
       (drop 2 (snd (monitoring_cycles
          [emergency_reading, normal_reading, emergency_reading, emergency_reading]
          MinerHealthMonitor_init))) = [[True], []]
   \<and> map (map is_emergency)
       (drop 2 (snd (monitoring_cycles
          [emergency_reading, warning_reading, emergency_reading, emergency_reading]
          MinerHealthMonitor_init))) = [[], []]
   \<and> map (map is_emergency)
       (snd (monitoring_cycles [emergency_reading, emergency_reading] MinerHealthMonitor_init))
       = [[True], []]"
proof -
  have e: "classify emergency_reading = EMERGENCY
      \<and> (\<forall>w\<in>set [emergency_reading]. classify w = EMERGENCY)"
    by (simp add: classify_readings)
  have rearmed: "\<not> emergency_since_normal (map classify [emergency_reading, normal_reading])"
    and latched: "emergency_since_normal (map classify [emergency_reading, warning_reading])"
    by (simp_all add: emergency_since_normal_def classify_readings)
  have fresh: "\<not> emergency_sent MinerHealthMonitor_init"
    by (simp add: MinerHealthMonitor_init_def)
  show ?thesis
    using e rearmed latched fresh
      C2_emergency_transmits_at_most_once_per_episode
        [of emergency_reading "[emergency_reading]" "[emergency_reading, normal_reading]"
            MinerHealthMonitor_init]
      C2_emergency_transmits_at_most_once_per_episode
        [of emergency_reading "[emergency_reading]" "[emergency_reading, warning_reading]"
            MinerHealthMonitor_init]
    by (simp add: numeral_2_eq_2 del: monitoring_cycles.simps)
qed

lemma three_cycles:
  "snd (monitoring_cycles [emergency_reading, warning_reading, emergency_reading]
      MinerHealthMonitor_init)
   = [[\<lparr>is_emergency = True, sent_vitals = emergency_reading, sent_status = EMERGENCY\<rparr>], [], []]"
  by (simp add: case_prod_beta classify_readings cycle_EMERGENCY cycle_WARNING power_down_def
      MinerHealthMonitor_init_def)

text \<open>
  Claim C2 as stated fails: in the three cycles Emergency, Warning, Emergency from the
  initial monitor there are two runs of consecutive Emergency cycles; the first makes
  one emergency transmission and the second none, the latch being still set.
\<close>

theorem C2_second_episode_counterexample:
  "map classify [emergency_reading, warning_reading, emergency_reading]
     = [EMERGENCY, WARNING, EMERGENCY]
   \<and> emergency_episode_counts [emergency_reading, warning_reading, emergency_reading]
        MinerHealthMonitor_init = [1, 0]"
  by (simp add: emergency_episode_counts_def three_cycles classify_readings
      del: monitoring_cycles.simps)

section \<open>Effects of the classifier\<close>

text \<open>
  No statement of \<^verbatim>\<open>analyze_health\<close> assigns to \<^verbatim>\<open>self\<close>, and the counters
  it leaves are those of the classifier's steps above.
\<close>

lemma analysis_steps_frame:
  "frame_self (analyze_spo2 a) = frame_self a"
  "frame_self (analyze_heart_rate a) = frame_self a"
  "frame_self (analyze_temperature a) = frame_self a"
  "frame_self (analyze_fall a) = frame_self a"
  by (simp_all add: analyze_spo2_def analyze_heart_rate_def analyze_temperature_def
      analyze_fall_def)

lemma analysis_steps_flags:
  "(frame_warning_flags (analyze_spo2 a), frame_critical_flags (analyze_spo2 a))
     = check_spo2 (vitals (frame_self a)) (frame_warning_flags a, frame_critical_flags a)"
  "(frame_warning_flags (analyze_heart_rate a), frame_critical_flags (analyze_heart_rate a))
     = check_heart_rate (vitals (frame_self a)) (frame_warning_flags a, frame_critical_flags a)"
  "(frame_warning_flags (analyze_temperature a), frame_critical_flags (analyze_temperature a))
     = check_temperature (vitals (frame_self a)) (frame_warning_flags a, frame_critical_flags a)"
  "(frame_warning_flags (analyze_fall a), frame_critical_flags (analyze_fall a))
     = check_fall (vitals (frame_self a)) (frame_warning_flags a, frame_critical_flags a)"
  by (simp_all add: analyze_spo2_def analyze_heart_rate_def analyze_temperature_def
      analyze_fall_def check_spo2_def check_heart_rate_def check_temperature_def check_fall_def)

lemma analyze_health_call_self: "fst (snd (analyze_health_call self)) = self"
  by (simp add: analyze_health_call_def Let_def analysis_steps_frame)

lemma analyze_health_call_status: "fst (analyze_health_call self) = analyze_health self"
proof -
  define a0 where "a0 = \<lparr>frame_self = self, frame_warning_flags = 0, frame_critical_flags = 0,
                frame_printed = []\<rparr>"
  define a1 where "a1 = analyze_spo2 a0"
  define a2 where "a2 = analyze_heart_rate a1"
  define a3 where "a3 = analyze_temperature a2"
  define a4 where "a4 = analyze_fall a3"
  have s: "frame_self a0 = self" "frame_self a1 = self" "frame_self a2 = self"
    "frame_self a3 = self" "frame_self a4 = self"
    by (simp_all add: a0_def a1_def a2_def a3_def a4_def analysis_steps_frame)
  have f1: "(frame_warning_flags a1, frame_critical_flags a1) = check_spo2 (vitals self) (0, 0)"
    using analysis_steps_flags(1) [of a0] by (simp add: a1_def a0_def)
  have f2: "(frame_warning_flags a2, frame_critical_flags a2)
      = check_heart_rate (vitals self) (check_spo2 (vitals self) (0, 0))"
    using analysis_steps_flags(2) [of a1] by (simp only: a2_def s f1)
  have f3: "(frame_warning_flags a3, frame_critical_flags a3)
      = check_temperature (vitals self)
          (check_heart_rate (vitals self) (check_spo2 (vitals self) (0, 0)))"
    using analysis_steps_flags(3) [of a2] by (simp only: a3_def s f2)
  have f4: "(frame_warning_flags a4, frame_critical_flags a4) = count_flags (vitals self)"
    using analysis_steps_flags(4) [of a3] by (simp only: a4_def s f3 count_flags_def)
  have "overall_status a4 = classify (vitals self)"
    using f4 [symmetric] by (simp add: overall_status_def classify_def s)
  then show ?thesis
    by (simp add: analyze_health_call_def Let_def a4_def a3_def a2_def a1_def a0_def
        analyze_health_def)
qed

lemma analyze_health_call_printed:
  "vitals self = vitals other \<Longrightarrow>
   snd (snd (analyze_health_call self)) = snd (snd (analyze_health_call other))"
proof -
  assume v: "vitals self = vitals other"
  have step: "\<And>a b. vitals (frame_self a) = vitals (frame_self b) \<Longrightarrow>
      frame_printed a = frame_printed b \<Longrightarrow>
      frame_printed (analyze_spo2 a) = frame_printed (analyze_spo2 b)
      \<and> frame_printed (analyze_heart_rate a) = frame_printed (analyze_heart_rate b)
      \<and> frame_printed (analyze_temperature a) = frame_printed (analyze_temperature b)
      \<and> frame_printed (analyze_fall a) = frame_printed (analyze_fall b)"
    by (simp add: analyze_spo2_def analyze_heart_rate_def analyze_temperature_def
        analyze_fall_def)
  define a0 where "a0 = \<lparr>frame_self = self, frame_warning_flags = 0, frame_critical_flags = 0,
                frame_printed = []\<rparr>"
  define b0 where "b0 = \<lparr>frame_self = other, frame_warning_flags = 0, frame_critical_flags = 0,
                frame_printed = []\<rparr>"
  have p0: "vitals (frame_self a0) = vitals (frame_self b0)" "frame_printed a0 = frame_printed b0"
    using v by (simp_all add: a0_def b0_def)
  have p1: "frame_printed (analyze_spo2 a0) = frame_printed (analyze_spo2 b0)"
    using step [OF p0] by simp
  have v1: "vitals (frame_self (analyze_spo2 a0)) = vitals (frame_self (analyze_spo2 b0))"
    using p0(1) by (simp add: analysis_steps_frame)
  have p2: "frame_printed (analyze_heart_rate (analyze_spo2 a0))
      = frame_printed (analyze_heart_rate (analyze_spo2 b0))"
    using step [OF v1 p1] by simp
  have v2: "vitals (frame_self (analyze_heart_rate (analyze_spo2 a0)))
      = vitals (frame_self (analyze_heart_rate (analyze_spo2 b0)))"
    using p0(1) by (simp add: analysis_steps_frame)
  have p3: "frame_printed (analyze_temperature (analyze_heart_rate (analyze_spo2 a0)))
      = frame_printed (analyze_temperature (analyze_heart_rate (analyze_spo2 b0)))"
    using step [OF v2 p2] by simp
  have v3: "vitals (frame_self (analyze_temperature (analyze_heart_rate (analyze_spo2 a0))))
      = vitals (frame_self (analyze_temperature (analyze_heart_rate (analyze_spo2 b0))))"
    using p0(1) by (simp add: analysis_steps_frame)
  have p4: "frame_printed (analyze_fall (analyze_temperature (analyze_heart_rate (analyze_spo2 a0))))
      = frame_printed (analyze_fall (analyze_temperature (analyze_heart_rate (analyze_spo2 b0))))"
    using step [OF v3 p3] by simp
  show ?thesis
    using p4 by (simp add: analyze_health_call_def Let_def a0_def b0_def)
qed

lemma classify_four_fields:
  "spo2 v = spo2 w \<Longrightarrow> heart_rate v = heart_rate w \<Longrightarrow> temperature v = temperature w \<Longrightarrow>
   fall_detected v = fall_detected w \<Longrightarrow> classify v = classify w"
  by (simp add: classify_def count_flags_def check_spo2_def check_heart_rate_def
      check_temperature_def check_fall_def)

text \<open>
  Claim C9. A call of \<^verbatim>\<open>analyze_health\<close> leaves the monitor as it found it and
  returns the status \<open>analyze_health\<close> gives; calling it again on the monitor it left
  returns the same status, monitor and printed lines. Two monitors holding the same
  sample get the same status and the same printed lines, whatever the rest of their
  state; the status depends on no more than the SpO2, heart rate, temperature and fall
  flag of the sample. The lines printed are the only effect of the call.
\<close>

theorem C9_analyze_health_pure_and_deterministic:
  "fst (snd (analyze_health_call self)) = self
   \<and> fst (analyze_health_call self) = analyze_health self
   \<and> analyze_health_call (fst (snd (analyze_health_call self))) = analyze_health_call self
   \<and> (vitals self = vitals other \<longrightarrow>
        fst (analyze_health_call self) = fst (analyze_health_call other)
        \<and> snd (snd (analyze_health_call self)) = snd (snd (analyze_health_call other)))
   \<and> (spo2 (vitals self) = spo2 (vitals other)
        \<and> heart_rate (vitals self) = heart_rate (vitals other)
        \<and> temperature (vitals self) = temperature (vitals other)
        \<and> fall_detected (vitals self) = fall_detected (vitals other) \<longrightarrow>
        fst (analyze_health_call self) = fst (analyze_health_call other))"
proof (intro conjI impI)
  show "fst (snd (analyze_health_call self)) = self"
    by (rule analyze_health_call_self)
  show "fst (analyze_health_call self) = analyze_health self"
    by (rule analyze_health_call_status)
  show "analyze_health_call (fst (snd (analyze_health_call self))) = analyze_health_call self"
    by (simp only: analyze_health_call_self)
next
  assume v: "vitals self = vitals other"
  show "fst (analyze_health_call self) = fst (analyze_health_call other)"
    using classify_four_fields [of "vitals self" "vitals other"] v
    by (simp add: analyze_health_call_status analyze_health_def)
  show "snd (snd (analyze_health_call self)) = snd (snd (analyze_health_call other))"
    by (rule analyze_health_call_printed [OF v])
next
  assume "spo2 (vitals self) = spo2 (vitals other)
        \<and> heart_rate (vitals self) = heart_rate (vitals other)
        \<and> temperature (vitals self) = temperature (vitals other)
        \<and> fall_detected (vitals self) = fall_detected (vitals other)"
  then show "fst (analyze_health_call self) = fst (analyze_health_call other)"
    using classify_four_fields [of "vitals self" "vitals other"]
    by (simp add: analyze_health_call_status analyze_health_def)
qed

theorem C9_analyze_health_pure_and_deterministic_witness:
  "vitals (MinerHealthMonitor_init\<lparr>vitals := warning_reading\<rparr>)
     = vitals (MinerHealthMonitor_init\<lparr>vitals := warning_reading, anomaly_count := 7,
         emergency_sent := True, current_state := EMERGENCY_STATE\<rparr>)
   \<and> fst (analyze_health_call (MinerHealthMonitor_init\<lparr>vitals := warning_reading\<rparr>))
     = fst (analyze_health_call (MinerHealthMonitor_init\<lparr>vitals := warning_reading,
         anomaly_count := 7, emergency_sent := True, current_state := EMERGENCY_STATE\<rparr>))
   \<and> fst (analyze_health_call (MinerHealthMonitor_init\<lparr>vitals := warning_reading\<rparr>)) = WARNING
   \<and> fst (snd (analyze_health_call (MinerHealthMonitor_init\<lparr>vitals := warning_reading\<rparr>)))
     = MinerHealthMonitor_init\<lparr>vitals := warning_reading\<rparr>"
proof -
  have same: "vitals (MinerHealthMonitor_init\<lparr>vitals := warning_reading\<rparr>)
     = vitals (MinerHealthMonitor_init\<lparr>vitals := warning_reading, anomaly_count := 7,
         emergency_sent := True, current_state := EMERGENCY_STATE\<rparr>)"
    by simp
  have w: "analyze_health (MinerHealthMonitor_init\<lparr>vitals := warning_reading\<rparr>) = WARNING"
    by (simp add: analyze_health_def classify_readings)
  show ?thesis
    using same w
      C9_analyze_health_pure_and_deterministic
        [of "MinerHealthMonitor_init\<lparr>vitals := warning_reading\<rparr>"
            "MinerHealthMonitor_init\<lparr>vitals := warning_reading, anomaly_count := 7,
               emergency_sent := True, current_state := EMERGENCY_STATE\<rparr>"]
    by auto
qed

text \<open>
  A call on a sample with SpO2 90: status Warning, the monitor untouched, one line.
\<close>

lemma analyze_health_call_low_spo2:
  "analyze_health_call (MinerHealthMonitor_init\<lparr>vitals := warning_reading\<rparr>)
     = (WARNING, MinerHealthMonitor_init\<lparr>vitals := warning_reading\<rparr>, [WarningSpO2 90])"
  by (simp add: analyze_health_call_def Let_def analyze_spo2_def analyze_heart_rate_def
      analyze_temperature_def analyze_fall_def overall_status_def thresholds
      warning_reading_def reading_def)

end
